theory Spec2Isabelle
  imports Main "HOL-Library.AList"
begin

chapter \<open>The patch maker's data model (ofrak_patch_maker/model.py)\<close>

text \<open>
  The module declares one exception class, five frozen dataclasses and one enumeration.
  Two of the dataclasses (\<open>AssembledObject\<close> and \<open>BOM\<close>) have a \<open>__post_init__\<close>
  that warns about a deprecated field; the others have no code of their own beyond the
  generated constructor. Each dataclass is a record; each constructor is a function from
  the arguments to either an exception or the warnings shown together with the instance.
\<close>

section \<open>Types the module imports\<close>

text \<open>
  Modelled from the spec: \<open>BinFileType\<close> is imported from
  \<open>ofrak_patch_maker.toolchain.model\<close>, which is not among the sources. The spec calls
  it a tag identifying the binary container format, "e.g., ELF-class, COFF-class".
\<close>

datatype BinFileType = ELF | COFF

text \<open>
  Modelled from the spec: \<open>LinkableSymbolType\<close> is imported from
  \<open>ofrak_type.symbol_type\<close>, which is not among the sources. The spec calls it the
  classification of a symbol, "function, object/data, absolute constant, etc."; these
  are the three kinds it names.
\<close>

datatype LinkableSymbolType = FUNC | DATA | ABSOLUTE

text \<open>
  Modelled from the spec: \<open>Segment\<close> is imported from
  \<open>ofrak_patch_maker.toolchain.model\<close>, which is not among the sources. The spec gives
  it a name, an address, a size and access attributes.
\<close>

record Segment =
  seg_name :: string
  seg_address :: int
  seg_size :: int
  seg_attributes :: string

section \<open>The enumeration of source file types\<close>

datatype SourceFileType = DEFAULT | C | ASM

section \<open>Exceptions\<close>

text \<open>
  \<open>PatchMakerException\<close> is the only exception class of the module. The spec's error
  taxonomy (section 7) is carried as the payload: a region overflow names the region and
  the segment, a symbol conflict carries the names defined twice. \<open>TypeError\<close> is what
  the Python runtime raises for a missing constructor argument and for hashing an
  unhashable value; \<open>WarningRaised\<close> is a warning that the warnings filter turned into
  an exception.
\<close>

datatype warning = UserWarning string

datatype failure =
    RegionOverflowError string string
  | ConfigError string
  | ToolchainError string
  | SymbolConflictError "string set"
  | NoObjects

datatype exn =
    PatchMakerException failure
  | TypeError string
  | WarningRaised warning

section \<open>warnings.warn\<close>

text \<open>
  Both \<open>__post_init__\<close> methods call \<open>warn(message)\<close> of the standard \<open>warnings\<close>
  module, with no category, so the warning is a \<open>UserWarning\<close> located at the line of
  the call. What the call does depends on the state of the \<open>warnings\<close> module:
  \<^item> the action the filters give the warning (that of the first filter that matches its
    text, category, module and line, or the default action when none does);
  \<^item> the registry of the calling module, which records the warnings already shown, by
    text and line (line 0 stands for "anywhere in the module");
  \<^item> the registry of the warnings shown once, by text.
  The category is the same for both calls and is left out of the keys.
\<close>

datatype action = ActError | ActIgnore | ActAlways | ActDefault | ActModule | ActOnce

record warnings_state =
  filter_action :: "string \<Rightarrow> nat \<Rightarrow> action"
  registry :: "(string \<times> nat) set"
  onceregistry :: "string set"

text \<open>
  \<open>warnings.warn_explicit\<close>: a warning already in the registry is dropped before the
  filters are looked at; \<open>ignore\<close> drops it; \<open>error\<close> raises it; the other actions
  show it, \<open>default\<close>, \<open>module\<close> and \<open>once\<close> only where their registry does not hold
  it yet. The result is the warnings shown and the new state.
\<close>

definition warn :: "string \<Rightarrow> nat \<Rightarrow> warnings_state \<Rightarrow> exn + (warning list \<times> warnings_state)" where
  "warn text lineno ws =
     (if (text, lineno) \<in> registry ws then Inr ([], ws)
      else
        (case filter_action ws text lineno of
           ActIgnore \<Rightarrow> Inr ([], ws)
         | ActError \<Rightarrow> Inl (WarningRaised (UserWarning text))
         | ActOnce \<Rightarrow>
             (let ws1 = ws\<lparr>registry := insert (text, lineno) (registry ws)\<rparr>
              in if text \<in> onceregistry ws1 then Inr ([], ws1)
                 else Inr ([UserWarning text],
                           ws1\<lparr>onceregistry := insert text (onceregistry ws1)\<rparr>))
         | ActAlways \<Rightarrow> Inr ([UserWarning text], ws)
         | ActModule \<Rightarrow>
             (let ws1 = ws\<lparr>registry := insert (text, lineno) (registry ws)\<rparr>
              in if (text, 0) \<in> registry ws1 then Inr ([], ws1)
                 else Inr ([UserWarning text],
                           ws1\<lparr>registry := insert (text, 0) (registry ws1)\<rparr>))
         | ActDefault \<Rightarrow>
             Inr ([UserWarning text], ws\<lparr>registry := insert (text, lineno) (registry ws)\<rparr>)))"

text \<open>A warning that no registry holds yet.\<close>

definition not_recorded :: "warnings_state \<Rightarrow> string \<Rightarrow> nat \<Rightarrow> bool" where
  "not_recorded ws text lineno =
     ((text, lineno) \<notin> registry ws \<and> (text, 0) \<notin> registry ws \<and> text \<notin> onceregistry ws)"

text \<open>The state in which every warning has the action \<open>a\<close> and nothing is recorded.\<close>

definition warnings_with :: "action \<Rightarrow> warnings_state" where
  "warnings_with a = \<lparr>filter_action = (\<lambda>text lineno. a), registry = {}, onceregistry = {}\<rparr>"

section \<open>Constructor arguments\<close>

text \<open>
  A dataclass field with a default may be left out of the constructor call; one without
  a default may not. \<open>bind_arg\<close> is the generated \<open>__init__\<close>'s treatment of one
  parameter: the value passed, else the default, else a \<open>TypeError\<close>.
\<close>

datatype 'a arg = Omitted | Given 'a

definition bind_arg :: "string \<Rightarrow> 'a option \<Rightarrow> 'a arg \<Rightarrow> exn + 'a" where
  "bind_arg param dflt a =
     (case a of
        Given v \<Rightarrow> Inr v
      | Omitted \<Rightarrow>
          (case dflt of
             Some d \<Rightarrow> Inr d
           | None \<Rightarrow> Inl (TypeError (''missing required argument: '' @ param))))"

section \<open>The dataclasses\<close>

subsection \<open>AssembledObject\<close>

record AssembledObject =
  path :: string
  file_format :: BinFileType
  segment_map :: "string \<rightharpoonup> Segment"
  strong_symbols :: "string \<rightharpoonup> int \<times> LinkableSymbolType"
  unresolved_symbols :: "string \<rightharpoonup> int \<times> LinkableSymbolType"
  bss_size_required :: "int option"

text \<open>The call of \<open>warn\<close> is on line 50 of the module.\<close>

definition AssembledObject_post_init ::
  "AssembledObject \<Rightarrow> warnings_state \<Rightarrow> exn + (warning list \<times> warnings_state)" where
  "AssembledObject_post_init self ws =
     (if AssembledObject.bss_size_required self \<noteq> None
      then warn ''AssembledObject.bss_size_required is deprecated'' 50 ws
      else Inr ([], ws))"

text \<open>
  The field \<open>bss_size_required\<close> is declared with the default \<open>None\<close>. An exception
  that leaves \<open>__post_init__\<close> leaves the constructor: no instance is returned.
\<close>

definition AssembledObject_init ::
  "string \<Rightarrow> BinFileType \<Rightarrow> (string \<rightharpoonup> Segment) \<Rightarrow> (string \<rightharpoonup> int \<times> LinkableSymbolType) \<Rightarrow>
   (string \<rightharpoonup> int \<times> LinkableSymbolType) \<Rightarrow> int option arg \<Rightarrow> warnings_state \<Rightarrow>
   exn + (warning list \<times> warnings_state \<times> AssembledObject)" where
  "AssembledObject_init p ff sm strong unres bss ws =
     (case bind_arg ''bss_size_required'' (Some None) bss of
        Inl e \<Rightarrow> Inl e
      | Inr b \<Rightarrow>
          (let self = \<lparr>path = p, file_format = ff, segment_map = sm, strong_symbols = strong,
                        unresolved_symbols = unres, bss_size_required = b\<rparr>
           in (case AssembledObject_post_init self ws of
                 Inl e \<Rightarrow> Inl e
               | Inr (shown, ws') \<Rightarrow> Inr (shown, ws', self))))"

subsection \<open>LinkedExecutable\<close>

record LinkedExecutable =
  path :: string
  file_format :: BinFileType
  segments :: "Segment list"
  symbols :: "string \<rightharpoonup> int \<times> LinkableSymbolType"
  relocatable :: bool

definition LinkedExecutable_init ::
  "string \<Rightarrow> BinFileType \<Rightarrow> Segment list \<Rightarrow> (string \<rightharpoonup> int \<times> LinkableSymbolType) \<Rightarrow> bool \<Rightarrow>
   exn + (warning list \<times> LinkedExecutable)" where
  "LinkedExecutable_init p ff segs syms reloc =
     Inr ([], \<lparr>path = p, file_format = ff, segments = segs, symbols = syms,
               relocatable = reloc\<rparr>)"

subsection \<open>PatchRegionConfig\<close>

text \<open>
  \<open>segments\<close> maps an object file path to a tuple of segments. The mapping is kept as
  an association list, in the order the caller declared it.
\<close>

record PatchRegionConfig =
  patch_name :: string
  segments :: "(string \<times> Segment list) list"

definition PatchRegionConfig_init ::
  "string \<Rightarrow> (string \<times> Segment list) list \<Rightarrow> exn + (warning list \<times> PatchRegionConfig)" where
  "PatchRegionConfig_init n segs = Inr ([], \<lparr>patch_name = n, segments = segs\<rparr>)"

subsection \<open>FEM\<close>

record FEM =
  name :: string
  executable :: LinkedExecutable

definition FEM_init :: "string \<Rightarrow> LinkedExecutable \<Rightarrow> exn + (warning list \<times> FEM)" where
  "FEM_init n exe = Inr ([], \<lparr>name = n, executable = exe\<rparr>)"

subsection \<open>BOM\<close>

record BOM =
  name :: string
  object_map :: "string \<rightharpoonup> AssembledObject"
  unresolved_symbols :: "string set"
  bss_size_required :: "int option"
  entry_point_symbol :: "string option"
  segment_alignment :: int

text \<open>The call of \<open>warn\<close> is on line 136 of the module.\<close>

definition BOM_post_init ::
  "BOM \<Rightarrow> warnings_state \<Rightarrow> exn + (warning list \<times> warnings_state)" where
  "BOM_post_init self ws =
     (if BOM.bss_size_required self \<noteq> None
      then warn ''BOM.bss_size_required is deprecated'' 136 ws
      else Inr ([], ws))"

text \<open>Here \<open>bss_size_required\<close> has no default.\<close>

definition BOM_init ::
  "string \<Rightarrow> (string \<rightharpoonup> AssembledObject) \<Rightarrow> string set \<Rightarrow> int option arg \<Rightarrow> string option \<Rightarrow> int \<Rightarrow>
   warnings_state \<Rightarrow> exn + (warning list \<times> warnings_state \<times> BOM)" where
  "BOM_init n om unres bss ep sa ws =
     (case bind_arg ''bss_size_required'' None bss of
        Inl e \<Rightarrow> Inl e
      | Inr b \<Rightarrow>
          (let self = \<lparr>name = n, object_map = om, unresolved_symbols = unres,
                        bss_size_required = b, entry_point_symbol = ep,
                        segment_alignment = sa\<rparr>
           in (case BOM_post_init self ws of
                 Inl e \<Rightarrow> Inl e
               | Inr (shown, ws') \<Rightarrow> Inr (shown, ws', self))))"

chapter \<open>Hashing an instance\<close>

text \<open>
  \<open>@dataclass(frozen=True)\<close> generates \<open>__eq__\<close>, which compares the tuples of the
  fields, and \<open>__hash__\<close>, which hashes that tuple. Equality of instances is equality of
  records. Hashing a tuple hashes its elements from left to right and raises as soon as
  one of them is unhashable.

  The hash of a string is salted per process and the hash of a mapping depends on the
  mapping class the caller chose, so the hashes of the hashable values are parameters.
\<close>

record hashing =
  hash_str :: "string \<Rightarrow> int"
  hash_int :: "int \<Rightarrow> int"
  hash_None :: int
  hash_tuple :: "int list \<Rightarrow> int"
  hash_object_map :: "(string \<rightharpoonup> AssembledObject) \<Rightarrow> exn + int"

text \<open>
  \<open>unresolved_symbols\<close> is declared \<open>Set[str]\<close>, the built-in \<open>set\<close>, which is
  mutable and has no hash: \<open>hash\<close> of a \<open>set\<close> raises \<open>TypeError\<close>.
\<close>

definition hash_set :: "'a set \<Rightarrow> exn + int" where
  "hash_set s = Inl (TypeError ''unhashable type: set'')"

definition hash_optional :: "hashing \<Rightarrow> ('a \<Rightarrow> int) \<Rightarrow> 'a option \<Rightarrow> exn + int" where
  "hash_optional H h v = (case v of None \<Rightarrow> Inr (hash_None H) | Some x \<Rightarrow> Inr (h x))"

fun hash_fields :: "(exn + int) list \<Rightarrow> exn + int list" where
  "hash_fields [] = Inr []"
| "hash_fields (Inl e # fs) = Inl e"
| "hash_fields (Inr h # fs) =
     (case hash_fields fs of Inl e \<Rightarrow> Inl e | Inr hs \<Rightarrow> Inr (h # hs))"

text \<open>The generated \<open>BOM.__hash__\<close>: the fields in the order of their declaration.\<close>

definition BOM_hash :: "hashing \<Rightarrow> BOM \<Rightarrow> exn + int" where
  "BOM_hash H self =
     (case hash_fields
             [Inr (hash_str H (BOM.name self)),
              hash_object_map H (object_map self),
              hash_set (BOM.unresolved_symbols self),
              hash_optional H (hash_int H) (BOM.bss_size_required self),
              hash_optional H (hash_str H) (entry_point_symbol self),
              Inr (hash_int H (segment_alignment self))] of
        Inl e \<Rightarrow> Inl e
      | Inr hs \<Rightarrow> Inr (hash_tuple H hs))"

chapter \<open>The BOM builder\<close>

text \<open>
  Modelled from the spec: the builder is not among the sources. Section 4.2 of the spec
  gives its contract, \<open>build(name, {source_path: (type, options)}, toolchain)\<close>, and
  its algorithm: each source file is compiled or assembled, the objects are collected
  into \<open>object_map\<close>, and \<open>unresolved_symbols\<close> is the union of the objects' unresolved
  names minus the names found among any object's strong symbols. It fails when two
  objects define the same strong symbol and when there is no object.

  The toolchain is an external program. Its front end is a parameter: a function from the
  type, the path and the options of a source file to the object or the failure. So is the
  natural alignment of an object, which no field of \<open>AssembledObject\<close> holds.
\<close>

record Toolchain =
  front_end :: "SourceFileType \<Rightarrow> string \<Rightarrow> string list \<Rightarrow> exn + AssembledObject"
  natural_alignment :: "AssembledObject \<Rightarrow> int"

text \<open>
  Modelled from the spec: the objects are collected by source path, as a dictionary is
  filled: a path has one entry. A failed compilation ends the build.
\<close>

fun compile_sources ::
  "Toolchain \<Rightarrow> (string \<times> SourceFileType \<times> string list) list \<Rightarrow>
   (string \<times> AssembledObject) list \<Rightarrow> exn + (string \<times> AssembledObject) list" where
  "compile_sources tc [] objs = Inr objs"
| "compile_sources tc ((p, t, opts) # rest) objs =
     (case front_end tc t p opts of
        Inl e \<Rightarrow> Inl e
      | Inr obj \<Rightarrow> compile_sources tc rest (AList.update p obj objs))"

text \<open>
  Modelled from the spec: one pass over the objects gathers the unresolved names and the
  strong names; a strong name met a second time is the duplicate-definition conflict.
\<close>

fun collect_symbols ::
  "AssembledObject list \<Rightarrow> string set \<Rightarrow> string set \<Rightarrow> exn + (string set \<times> string set)" where
  "collect_symbols [] unres strong = Inr (unres, strong)"
| "collect_symbols (obj # objs) unres strong =
     (if dom (strong_symbols obj) \<inter> strong \<noteq> {}
      then Inl (PatchMakerException (SymbolConflictError (dom (strong_symbols obj) \<inter> strong)))
      else collect_symbols objs
             (unres \<union> dom (AssembledObject.unresolved_symbols obj))
             (strong \<union> dom (strong_symbols obj)))"

text \<open>
  Modelled from the spec: "the maximum (or a caller-specified override) of each object's
  natural per-segment alignment requirement".
\<close>

fun max_alignment :: "int list \<Rightarrow> int" where
  "max_alignment [] = 0"
| "max_alignment [a] = a"
| "max_alignment (a # b # rest) = max a (max_alignment (b # rest))"

text \<open>
  Modelled from the spec: \<open>build\<close>. The entry point symbol and the alignment override,
  which the contract does not list, are arguments; the deprecated \<open>bss_size_required\<close>
  is passed as \<open>None\<close>.
\<close>

definition BOM_Builder_build ::
  "string \<Rightarrow> (string \<times> SourceFileType \<times> string list) list \<Rightarrow> Toolchain \<Rightarrow> string option \<Rightarrow>
   int option \<Rightarrow> warnings_state \<Rightarrow> exn + (warning list \<times> warnings_state \<times> BOM)" where
  "BOM_Builder_build n sources tc entry override ws =
     (case compile_sources tc sources [] of
        Inl e \<Rightarrow> Inl e
      | Inr objs \<Rightarrow>
          (if objs = [] then Inl (PatchMakerException NoObjects)
           else
             (case collect_symbols (map snd objs) {} {} of
                Inl e \<Rightarrow> Inl e
              | Inr (unres, strong) \<Rightarrow>
                  BOM_init n (map_of objs) (unres - strong) (Given None) entry
                    (case override of
                       Some a \<Rightarrow> a
                     | None \<Rightarrow> max_alignment (map (natural_alignment tc \<circ> snd) objs))
                    ws)))"

chapter \<open>The region planner\<close>

text \<open>
  Modelled from the spec: the planner is not among the sources. Section 4.3 of the spec
  places the segments requested for a region one after the other, from the region's base
  address, each start rounded up to a multiple of the \<open>BOM\<close>'s \<open>segment_alignment\<close>;
  a segment whose end would pass the end of the region is a region overflow, which names
  the region and that segment. \<open>PatchRegionConfig\<close> has no field for the base and the
  length of the region, so the region is an argument of its own.
\<close>

record Region =
  region_name :: string
  base_address :: int
  region_size :: nat

text \<open>Modelled from the spec: the address one past the last byte of the region.\<close>

definition region_end :: "Region \<Rightarrow> int" where
  "region_end r = base_address r + int (region_size r)"

text \<open>
  Modelled from the spec: "rounding each successive start up to the nearest multiple of
  \<open>bom.segment_alignment\<close>", for a positive alignment.
\<close>

definition round_up :: "int \<Rightarrow> int \<Rightarrow> int" where
  "round_up a x = ((x + a - 1) div a) * a"

text \<open>
  Modelled from the spec: the walk over the segments of one object file, from the cursor
  \<open>cur\<close>. It returns the segments with their addresses and the cursor after the last
  one, or the overflow of the first segment that does not fit.
\<close>

fun place_segments ::
  "Region \<Rightarrow> int \<Rightarrow> int \<Rightarrow> Segment list \<Rightarrow> exn + (Segment list \<times> int)" where
  "place_segments r a cur [] = Inr ([], cur)"
| "place_segments r a cur (s # ss) =
     (let start = round_up a cur; stop = start + seg_size s
      in if region_end r < stop
         then Inl (PatchMakerException (RegionOverflowError (region_name r) (seg_name s)))
         else (case place_segments r a stop ss of
                 Inl e \<Rightarrow> Inl e
               | Inr (placed, c) \<Rightarrow> Inr (s\<lparr>seg_address := start\<rparr> # placed, c)))"

text \<open>
  Modelled from the spec: the walk over the object files of the config, in the order the
  config declares them, with one cursor for the whole region.
\<close>

fun place_objects ::
  "Region \<Rightarrow> int \<Rightarrow> int \<Rightarrow> (string \<times> Segment list) list \<Rightarrow>
   exn + ((string \<times> Segment list) list \<times> int)" where
  "place_objects r a cur [] = Inr ([], cur)"
| "place_objects r a cur ((p, segs) # rest) =
     (case place_segments r a cur segs of
        Inl e \<Rightarrow> Inl e
      | Inr (placed, c) \<Rightarrow>
          (case place_objects r a c rest of
             Inl e \<Rightarrow> Inl e
           | Inr (layout, c') \<Rightarrow> Inr ((p, placed) # layout, c')))"

text \<open>
  Modelled from the spec: \<open>plan(bom, region_config)\<close>, for one region. The planned layout
  maps each object file path to its placed segments. Section 7 of the spec makes a zero
  alignment a configuration error and section 3 requires the alignment to be positive.
\<close>

definition plan ::
  "BOM \<Rightarrow> Region \<Rightarrow> PatchRegionConfig \<Rightarrow> exn + (string \<times> Segment list) list" where
  "plan bom r cfg =
     (if segment_alignment bom \<le> 0
      then Inl (PatchMakerException (ConfigError ''zero alignment''))
      else (case place_objects r (segment_alignment bom) (base_address r) (segments cfg) of
              Inl e \<Rightarrow> Inl e
            | Inr (layout, c) \<Rightarrow> Inr layout))"

text \<open>The segments a config requests, in declared order, and a placed segment's bounds.\<close>

definition requested :: "PatchRegionConfig \<Rightarrow> Segment list" where
  "requested cfg = concat (map snd (segments cfg))"

definition within_region :: "Region \<Rightarrow> Segment \<Rightarrow> bool" where
  "within_region r s =
     (base_address r \<le> seg_address s \<and> seg_address s + seg_size s \<le> region_end r)"

chapter \<open>Conditions and examples\<close>

section \<open>The consistency the spec states for a BOM\<close>

text \<open>
  The names left unresolved by the objects of a map, and the names some object of the map
  defines strongly.
\<close>

definition unresolved_names :: "(string \<rightharpoonup> AssembledObject) \<Rightarrow> string set" where
  "unresolved_names om = (\<Union>obj \<in> ran om. dom (AssembledObject.unresolved_symbols obj))"

definition strong_names :: "(string \<rightharpoonup> AssembledObject) \<Rightarrow> string set" where
  "strong_names om = (\<Union>obj \<in> ran om. dom (strong_symbols obj))"

text \<open>
  A \<open>BOM\<close> is consistent when its \<open>unresolved_symbols\<close> is the set of names its objects
  leave unresolved, less the names its objects define strongly.
\<close>

definition BOM_unresolved_consistent :: "BOM \<Rightarrow> bool" where
  "BOM_unresolved_consistent b =
     (BOM.unresolved_symbols b = unresolved_names (object_map b) - strong_names (object_map b))"

section \<open>Two objects of one patch\<close>

text \<open>
  \<open>main.o\<close> calls \<open>memcpy\<close> and \<open>helper\<close>; \<open>helper.o\<close> defines \<open>helper\<close>. The
  example toolchain compiles \<open>main.c\<close> to the first and assembles \<open>helper.S\<close> to the
  second.
\<close>

definition main_object :: AssembledObject where
  "main_object =
     \<lparr>AssembledObject.path = ''main.o'', AssembledObject.file_format = ELF,
      segment_map = Map.empty, strong_symbols = [''main'' \<mapsto> (4096, FUNC)],
      AssembledObject.unresolved_symbols = [''memcpy'' \<mapsto> (0, FUNC), ''helper'' \<mapsto> (0, FUNC)],
      AssembledObject.bss_size_required = None\<rparr>"

definition helper_object :: AssembledObject where
  "helper_object =
     \<lparr>AssembledObject.path = ''helper.o'', AssembledObject.file_format = ELF,
      segment_map = Map.empty, strong_symbols = [''helper'' \<mapsto> (8192, FUNC)],
      AssembledObject.unresolved_symbols = Map.empty,
      AssembledObject.bss_size_required = None\<rparr>"

definition example_toolchain :: Toolchain where
  "example_toolchain =
     \<lparr>front_end = (\<lambda>t p opts.
        if p = ''main.c'' then Inr main_object
        else if p = ''helper.S'' then Inr helper_object
        else Inl (PatchMakerException (ToolchainError p))),
      natural_alignment = (\<lambda>obj. 4)\<rparr>"

definition example_bom :: BOM where
  "example_bom =
     \<lparr>BOM.name = ''bom'',
      object_map = map_of [(''main.c'', main_object), (''helper.S'', helper_object)],
      unresolved_symbols = {''memcpy''}, bss_size_required = None,
      entry_point_symbol = Some ''main'', segment_alignment = 4\<rparr>"

text \<open>A \<open>BOM\<close> with no object, aligned to 4.\<close>

definition minimal_bom :: BOM where
  "minimal_bom =
     \<lparr>BOM.name = ''bom'', object_map = Map.empty, unresolved_symbols = {},
      bss_size_required = None, entry_point_symbol = None, segment_alignment = 4\<rparr>"

text \<open>
  The region of the spec's scenarios, a config that requests two segments of one object
  file in it, and where section 8 of the spec expects the segments of sizes 10 and 6.
\<close>

definition PATCH_A :: Region where
  "PATCH_A = \<lparr>region_name = ''PATCH_A'', base_address = 0x1000, region_size = 0x100\<rparr>"

definition request :: "nat \<Rightarrow> nat \<Rightarrow> PatchRegionConfig" where
  "request m n =
     \<lparr>patch_name = ''patch'',
      segments = [(''patch.o'',
        [\<lparr>seg_name = ''.text'', seg_address = 0, seg_size = int m, seg_attributes = ''rx''\<rparr>,
         \<lparr>seg_name = ''.data'', seg_address = 0, seg_size = int n, seg_attributes = ''rw''\<rparr>])]\<rparr>"

definition text_placed :: Segment where
  "text_placed =
     \<lparr>seg_name = ''.text'', seg_address = 0x1000, seg_size = 10, seg_attributes = ''rx''\<rparr>"

definition data_placed :: Segment where
  "data_placed =
     \<lparr>seg_name = ''.data'', seg_address = 0x100C, seg_size = 6, seg_attributes = ''rw''\<rparr>"


chapter \<open>Properties\<close>

section \<open>The deprecated field\<close>

text \<open>What \<open>warn\<close> can do: raise the warning itself, or show it, or show nothing.\<close>

lemma warn_raises_only_the_warning:
  "warn text lineno ws = Inl e \<Longrightarrow> e = WarningRaised (UserWarning text)"
  by (cases "filter_action ws text lineno")
     (auto simp add: warn_def Let_def split: if_splits)

lemma warn_unless_error:
  "filter_action ws text lineno \<noteq> ActError \<Longrightarrow> 0 < lineno \<Longrightarrow>
     \<exists>shown ws'. warn text lineno ws = Inr (shown, ws')
        \<and> (shown = [] \<or> shown = [UserWarning text])
        \<and> (not_recorded ws text lineno \<and> filter_action ws text lineno \<noteq> ActIgnore
             \<longrightarrow> shown = [UserWarning text])"
  by (cases "filter_action ws text lineno")
     (auto simp add: warn_def Let_def not_recorded_def)

text \<open>
  Under the default action, the second construction with the field set shows nothing: the
  first one recorded the warning.
\<close>

lemma BOM_second_warning_not_shown:
  "BOM_init n om us (Given (Some k)) ep sa (warnings_with ActDefault) = Inr (shown, ws', b) \<Longrightarrow>
     \<exists>b'. BOM_init n' om' us' (Given (Some k')) ep' sa' ws' = Inr ([], ws', b')"
  by (auto simp add: BOM_init_def bind_arg_def BOM_post_init_def warn_def warnings_with_def
      Let_def)

text \<open>
  C5, as stated: constructing an \<open>AssembledObject\<close> or a \<open>BOM\<close> with a
  \<open>bss_size_required\<close> other than \<open>None\<close> never raises. It fails when the warnings
  filter has the action \<open>error\<close>: the warning leaves \<open>__post_init__\<close> as an exception
  and no instance is returned.
\<close>

theorem bss_size_required_raises_under_error:
  "AssembledObject_init ''patch.o'' ELF Map.empty Map.empty Map.empty (Given (Some 16))
     (warnings_with ActError) =
   Inl (WarningRaised (UserWarning ''AssembledObject.bss_size_required is deprecated''))
   \<and> BOM_init ''bom'' Map.empty {} (Given (Some 16)) None 4 (warnings_with ActError) =
   Inl (WarningRaised (UserWarning ''BOM.bss_size_required is deprecated''))"
  by (simp add: AssembledObject_init_def BOM_init_def bind_arg_def
      AssembledObject_post_init_def BOM_post_init_def warn_def warnings_with_def)

text \<open>
  C5, amended: unless the warnings filter gives the deprecation warning the action
  \<open>error\<close>, constructing an \<open>AssembledObject\<close> or a \<open>BOM\<close> with a
  \<open>bss_size_required\<close> other than \<open>None\<close> succeeds and returns the instance with the
  field set, showing that one warning or nothing; it shows the warning when the action is
  not \<open>ignore\<close> either and no registry holds the warning yet.
\<close>

theorem bss_size_required_warns_and_constructs:
  assumes "filter_action ws ''AssembledObject.bss_size_required is deprecated'' 50 \<noteq> ActError"
    and "filter_action ws ''BOM.bss_size_required is deprecated'' 136 \<noteq> ActError"
  shows
   "(\<exists>shown ws'.
       AssembledObject_init p ff sm strong unres (Given (Some n)) ws =
         Inr (shown, ws',
              \<lparr>AssembledObject.path = p, AssembledObject.file_format = ff, segment_map = sm,
               strong_symbols = strong, AssembledObject.unresolved_symbols = unres,
               AssembledObject.bss_size_required = Some n\<rparr>)
       \<and> (shown = [] \<or> shown = [UserWarning ''AssembledObject.bss_size_required is deprecated''])
       \<and> (not_recorded ws ''AssembledObject.bss_size_required is deprecated'' 50
           \<and> filter_action ws ''AssembledObject.bss_size_required is deprecated'' 50 \<noteq> ActIgnore
           \<longrightarrow> shown = [UserWarning ''AssembledObject.bss_size_required is deprecated'']))
    \<and> (\<exists>shown ws'.
       BOM_init nm om us (Given (Some n)) ep sa ws =
         Inr (shown, ws',
              \<lparr>BOM.name = nm, object_map = om, unresolved_symbols = us,
               bss_size_required = Some n, entry_point_symbol = ep, segment_alignment = sa\<rparr>)
       \<and> (shown = [] \<or> shown = [UserWarning ''BOM.bss_size_required is deprecated''])
       \<and> (not_recorded ws ''BOM.bss_size_required is deprecated'' 136
           \<and> filter_action ws ''BOM.bss_size_required is deprecated'' 136 \<noteq> ActIgnore
           \<longrightarrow> shown = [UserWarning ''BOM.bss_size_required is deprecated'']))"
proof -
  from warn_unless_error [OF assms(1)] obtain shown1 ws1 where
    w1: "warn ''AssembledObject.bss_size_required is deprecated'' 50 ws = Inr (shown1, ws1)"
    and s1: "shown1 = [] \<or> shown1 = [UserWarning ''AssembledObject.bss_size_required is deprecated'']"
    and f1: "not_recorded ws ''AssembledObject.bss_size_required is deprecated'' 50
           \<and> filter_action ws ''AssembledObject.bss_size_required is deprecated'' 50 \<noteq> ActIgnore
           \<longrightarrow> shown1 = [UserWarning ''AssembledObject.bss_size_required is deprecated'']"
    by fastforce
  from warn_unless_error [OF assms(2)] obtain shown2 ws2 where
    w2: "warn ''BOM.bss_size_required is deprecated'' 136 ws = Inr (shown2, ws2)"
    and s2: "shown2 = [] \<or> shown2 = [UserWarning ''BOM.bss_size_required is deprecated'']"
    and f2: "not_recorded ws ''BOM.bss_size_required is deprecated'' 136
           \<and> filter_action ws ''BOM.bss_size_required is deprecated'' 136 \<noteq> ActIgnore
           \<longrightarrow> shown2 = [UserWarning ''BOM.bss_size_required is deprecated'']"
    by fastforce
  from w1 have
    "AssembledObject_init p ff sm strong unres (Given (Some n)) ws =
       Inr (shown1, ws1,
            \<lparr>AssembledObject.path = p, AssembledObject.file_format = ff, segment_map = sm,
             strong_symbols = strong, AssembledObject.unresolved_symbols = unres,
             AssembledObject.bss_size_required = Some n\<rparr>)"
    by (simp add: AssembledObject_init_def bind_arg_def AssembledObject_post_init_def)
  with s1 f1 have first: "\<exists>shown ws'.
       AssembledObject_init p ff sm strong unres (Given (Some n)) ws =
         Inr (shown, ws',
              \<lparr>AssembledObject.path = p, AssembledObject.file_format = ff, segment_map = sm,
               strong_symbols = strong, AssembledObject.unresolved_symbols = unres,
               AssembledObject.bss_size_required = Some n\<rparr>)
       \<and> (shown = [] \<or> shown = [UserWarning ''AssembledObject.bss_size_required is deprecated''])
       \<and> (not_recorded ws ''AssembledObject.bss_size_required is deprecated'' 50
           \<and> filter_action ws ''AssembledObject.bss_size_required is deprecated'' 50 \<noteq> ActIgnore
           \<longrightarrow> shown = [UserWarning ''AssembledObject.bss_size_required is deprecated''])"
    by blast
  from w2 have
    "BOM_init nm om us (Given (Some n)) ep sa ws =
       Inr (shown2, ws2,
            \<lparr>BOM.name = nm, object_map = om, unresolved_symbols = us,
             bss_size_required = Some n, entry_point_symbol = ep, segment_alignment = sa\<rparr>)"
    by (simp add: BOM_init_def bind_arg_def BOM_post_init_def)
  with s2 f2 have second: "\<exists>shown ws'.
       BOM_init nm om us (Given (Some n)) ep sa ws =
         Inr (shown, ws',
              \<lparr>BOM.name = nm, object_map = om, unresolved_symbols = us,
               bss_size_required = Some n, entry_point_symbol = ep, segment_alignment = sa\<rparr>)
       \<and> (shown = [] \<or> shown = [UserWarning ''BOM.bss_size_required is deprecated''])
       \<and> (not_recorded ws ''BOM.bss_size_required is deprecated'' 136
           \<and> filter_action ws ''BOM.bss_size_required is deprecated'' 136 \<noteq> ActIgnore
           \<longrightarrow> shown = [UserWarning ''BOM.bss_size_required is deprecated''])"
    by blast
  from first second show ?thesis by blast
qed

theorem bss_size_required_warns_and_constructs_witness:
  "filter_action (warnings_with ActDefault)
     ''AssembledObject.bss_size_required is deprecated'' 50 \<noteq> ActError
   \<and> filter_action (warnings_with ActDefault) ''BOM.bss_size_required is deprecated'' 136
       \<noteq> ActError
   \<and> not_recorded (warnings_with ActDefault)
       ''AssembledObject.bss_size_required is deprecated'' 50
   \<and> AssembledObject_init ''patch.o'' ELF Map.empty Map.empty Map.empty (Given (Some 16))
       (warnings_with ActDefault) =
     Inr ([UserWarning ''AssembledObject.bss_size_required is deprecated''],
          (warnings_with ActDefault)
            \<lparr>registry := {(''AssembledObject.bss_size_required is deprecated'', 50)}\<rparr>,
          \<lparr>AssembledObject.path = ''patch.o'', AssembledObject.file_format = ELF,
           segment_map = Map.empty, strong_symbols = Map.empty,
           AssembledObject.unresolved_symbols = Map.empty,
           AssembledObject.bss_size_required = Some 16\<rparr>)
   \<and> BOM_init ''bom'' Map.empty {} (Given (Some 16)) None 4 (warnings_with ActDefault) =
     Inr ([UserWarning ''BOM.bss_size_required is deprecated''],
          (warnings_with ActDefault)
            \<lparr>registry := {(''BOM.bss_size_required is deprecated'', 136)}\<rparr>,
          \<lparr>BOM.name = ''bom'', object_map = Map.empty, unresolved_symbols = {},
           bss_size_required = Some 16, entry_point_symbol = None, segment_alignment = 4\<rparr>)"
  using bss_size_required_warns_and_constructs
    [of "warnings_with ActDefault" "''patch.o''" ELF Map.empty Map.empty Map.empty 16
        "''bom''" Map.empty "{}" None 4]
  by (simp add: AssembledObject_init_def BOM_init_def bind_arg_def
      AssembledObject_post_init_def BOM_post_init_def warn_def warnings_with_def
      not_recorded_def)

text \<open>
  C9. An \<open>AssembledObject\<close> constructed without \<open>bss_size_required\<close> has the field
  \<open>None\<close>, and no warning is shown, whatever the state of the warnings module; a \<open>BOM\<close>
  constructed without it is a \<open>TypeError\<close>, since the field has no default there.
\<close>

theorem bss_size_required_default:
  "AssembledObject_init p ff sm strong unres Omitted ws =
     Inr ([], ws,
          \<lparr>AssembledObject.path = p, AssembledObject.file_format = ff, segment_map = sm,
           strong_symbols = strong, AssembledObject.unresolved_symbols = unres,
           AssembledObject.bss_size_required = None\<rparr>)
   \<and> BOM_init nm om us Omitted ep sa ws =
     Inl (TypeError ''missing required argument: bss_size_required'')"
  by (simp add: AssembledObject_init_def BOM_init_def bind_arg_def
      AssembledObject_post_init_def)

section \<open>Construction is total\<close>

text \<open>
  C10. Apart from the deprecation warning, construction never raises. With
  \<open>bss_size_required\<close> \<open>None\<close>, where no warning is in play, each of the five
  constructors returns an instance holding exactly the values given, whatever they are:
  a \<open>BOM\<close> with zero or negative \<open>segment_alignment\<close> or any \<open>unresolved_symbols\<close>
  set, an \<open>AssembledObject\<close> whose strong and unresolved symbols share names. With any
  \<open>bss_size_required\<close>, the constructors of \<open>AssembledObject\<close> and \<open>BOM\<close> return the
  instance holding the values given, and the one exception that can leave them is the
  deprecation warning itself.
\<close>

theorem construction_never_raises:
  "AssembledObject_init p ff sm strong unres (Given None) ws =
      Inr ([], ws,
           \<lparr>AssembledObject.path = p, AssembledObject.file_format = ff, segment_map = sm,
            strong_symbols = strong, AssembledObject.unresolved_symbols = unres,
            AssembledObject.bss_size_required = None\<rparr>)
   \<and> (case AssembledObject_init p ff sm strong unres (Given bss) ws of
        Inl e \<Rightarrow>
          e = WarningRaised (UserWarning ''AssembledObject.bss_size_required is deprecated'')
      | Inr (shown, ws', obj) \<Rightarrow>
          obj = \<lparr>AssembledObject.path = p, AssembledObject.file_format = ff,
                 segment_map = sm, strong_symbols = strong,
                 AssembledObject.unresolved_symbols = unres,
                 AssembledObject.bss_size_required = bss\<rparr>)
   \<and> LinkedExecutable_init lp lff segs syms reloc =
      Inr ([], \<lparr>LinkedExecutable.path = lp, LinkedExecutable.file_format = lff,
                LinkedExecutable.segments = segs, symbols = syms, relocatable = reloc\<rparr>)
   \<and> PatchRegionConfig_init pn psegs = Inr ([], \<lparr>patch_name = pn, segments = psegs\<rparr>)
   \<and> FEM_init fnm exe = Inr ([], \<lparr>FEM.name = fnm, executable = exe\<rparr>)
   \<and> BOM_init nm om us (Given None) ep sa ws =
      Inr ([], ws,
           \<lparr>BOM.name = nm, object_map = om, unresolved_symbols = us,
            bss_size_required = None, entry_point_symbol = ep, segment_alignment = sa\<rparr>)
   \<and> (case BOM_init nm om us (Given bbss) ep sa ws of
        Inl e \<Rightarrow> e = WarningRaised (UserWarning ''BOM.bss_size_required is deprecated'')
      | Inr (shown, ws', b) \<Rightarrow>
          b = \<lparr>BOM.name = nm, object_map = om, unresolved_symbols = us,
               bss_size_required = bbss, entry_point_symbol = ep,
               segment_alignment = sa\<rparr>)"
proof -
  have ao: "case AssembledObject_init p ff sm strong unres (Given bss) ws of
        Inl e \<Rightarrow>
          e = WarningRaised (UserWarning ''AssembledObject.bss_size_required is deprecated'')
      | Inr (shown, ws', obj) \<Rightarrow>
          obj = \<lparr>AssembledObject.path = p, AssembledObject.file_format = ff,
                 segment_map = sm, strong_symbols = strong,
                 AssembledObject.unresolved_symbols = unres,
                 AssembledObject.bss_size_required = bss\<rparr>"
    by (auto simp add: AssembledObject_init_def bind_arg_def AssembledObject_post_init_def
        Let_def split: sum.splits dest: warn_raises_only_the_warning)
  have bom: "case BOM_init nm om us (Given bbss) ep sa ws of
        Inl e \<Rightarrow> e = WarningRaised (UserWarning ''BOM.bss_size_required is deprecated'')
      | Inr (shown, ws', b) \<Rightarrow>
          b = \<lparr>BOM.name = nm, object_map = om, unresolved_symbols = us,
               bss_size_required = bbss, entry_point_symbol = ep,
               segment_alignment = sa\<rparr>"
    by (auto simp add: BOM_init_def bind_arg_def BOM_post_init_def
        Let_def split: sum.splits dest: warn_raises_only_the_warning)
  from ao bom show ?thesis
    by (simp add: AssembledObject_init_def BOM_init_def bind_arg_def
        AssembledObject_post_init_def BOM_post_init_def
        LinkedExecutable_init_def PatchRegionConfig_init_def FEM_init_def)
qed

section \<open>What the BOM builder computes\<close>

text \<open>The collected objects have one entry for a path.\<close>

lemma compile_sources_distinct:
  "distinct (map fst objs) \<Longrightarrow> compile_sources tc sources objs = Inr objs' \<Longrightarrow>
     distinct (map fst objs')"
proof (induction sources arbitrary: objs)
  case Nil
  then show ?case by simp
next
  case (Cons src rest)
  obtain p t opts where src: "src = (p, t, opts)" by (cases src)
  from Cons.prems(2) src obtain obj where
    obj: "front_end tc t p opts = Inr obj" and
    rest: "compile_sources tc rest (AList.update p obj objs) = Inr objs'"
    by (auto split: sum.splits)
  from Cons.prems(1) have "distinct (map fst (AList.update p obj objs))"
    by (rule distinct_update)
  from Cons.IH [OF this rest] show ?case .
qed

text \<open>The pass over the objects adds the names of each object to the two sets.\<close>

lemma collect_symbols_unions:
  "collect_symbols objs unres strong = Inr (unres', strong') \<Longrightarrow>
     unres' = unres \<union> (\<Union>obj \<in> set objs. dom (AssembledObject.unresolved_symbols obj))
     \<and> strong' = strong \<union> (\<Union>obj \<in> set objs. dom (strong_symbols obj))"
proof (induction objs arbitrary: unres strong)
  case Nil
  then show ?case by simp
next
  case (Cons obj objs)
  from Cons.prems have
    "collect_symbols objs (unres \<union> dom (AssembledObject.unresolved_symbols obj))
       (strong \<union> dom (strong_symbols obj)) = Inr (unres', strong')"
    by (simp split: if_splits)
  from Cons.IH [OF this] show ?case by auto
qed

text \<open>
  C1. The \<open>unresolved_symbols\<close> of every \<open>BOM\<close> the builder returns is the union,
  across the objects in its \<open>object_map\<close>, of their unresolved names, minus every name
  among the strong symbols of any of them.
\<close>

theorem BOM_unresolved_symbols_consistent:
  assumes "BOM_Builder_build n sources tc entry override ws = Inr (shown, ws', b)"
  shows "BOM.unresolved_symbols b =
           (\<Union>obj \<in> ran (object_map b). dom (AssembledObject.unresolved_symbols obj))
           - (\<Union>obj \<in> ran (object_map b). dom (strong_symbols obj))"
proof -
  from assms obtain objs where
    objs: "compile_sources tc sources [] = Inr objs"
    by (auto simp add: BOM_Builder_build_def split: sum.splits)
  with assms obtain unres strong where
    syms: "collect_symbols (map snd objs) {} {} = Inr (unres, strong)"
    by (auto simp add: BOM_Builder_build_def split: sum.splits if_splits)
  from assms objs syms have
    init: "BOM_init n (map_of objs) (unres - strong) (Given None) entry
             (case override of
                Some a \<Rightarrow> a
              | None \<Rightarrow> max_alignment (map (natural_alignment tc \<circ> snd) objs))
             ws = Inr (shown, ws', b)"
    by (simp add: BOM_Builder_build_def split: if_splits)
  then have fields: "object_map b = map_of objs" "BOM.unresolved_symbols b = unres - strong"
    by (auto simp add: BOM_init_def bind_arg_def BOM_post_init_def)
  from compile_sources_distinct [OF _ objs] have "distinct (map fst objs)"
    by simp
  then have collected: "ran (map_of objs) = snd ` set objs"
    by (rule ran_distinct)
  from collect_symbols_unions [OF syms] have
    "unres = (\<Union>obj \<in> snd ` set objs. dom (AssembledObject.unresolved_symbols obj))"
    "strong = (\<Union>obj \<in> snd ` set objs. dom (strong_symbols obj))"
    by simp_all
  with fields collected show ?thesis by simp
qed

theorem BOM_unresolved_symbols_consistent_witness:
  "BOM_Builder_build ''bom'' [(''main.c'', C, []), (''helper.S'', ASM, [])] example_toolchain
     (Some ''main'') None (warnings_with ActDefault) =
   Inr ([], warnings_with ActDefault, example_bom)
   \<and> BOM.unresolved_symbols example_bom = {''memcpy''}
   \<and> BOM_unresolved_consistent example_bom"
proof -
  have objs:
    "compile_sources example_toolchain [(''main.c'', C, []), (''helper.S'', ASM, [])] [] =
       Inr [(''main.c'', main_object), (''helper.S'', helper_object)]"
    by (simp add: example_toolchain_def)
  have syms:
    "collect_symbols [main_object, helper_object] {} {} =
       Inr ({''memcpy'', ''helper''}, {''main'', ''helper''})"
    by (auto simp add: main_object_def helper_object_def)
  have diff: "{''memcpy'', ''helper''} - {''main'', ''helper''} = {''memcpy''}"
    by auto
  have built:
    "BOM_Builder_build ''bom'' [(''main.c'', C, []), (''helper.S'', ASM, [])]
       example_toolchain (Some ''main'') None (warnings_with ActDefault) =
     Inr ([], warnings_with ActDefault, example_bom)"
    by (simp add: BOM_Builder_build_def objs syms diff BOM_init_def bind_arg_def
        BOM_post_init_def example_bom_def example_toolchain_def
        del: collect_symbols.simps)
  from BOM_unresolved_symbols_consistent [OF built] built show ?thesis
    by (simp add: BOM_unresolved_consistent_def unresolved_names_def strong_names_def
        example_bom_def)
qed

section \<open>Hashing a BOM\<close>

text \<open>
  C4. Two instances with equal fields should hash equal, and the docstring of \<open>BOM\<close>
  says that keeping the class frozen ensures a hash for every instance. For a \<open>BOM\<close>
  there is no hash to compare: with an object map that hashes, \<open>BOM.__hash__\<close>
  reaches \<open>unresolved_symbols\<close>, a \<open>set\<close>, and raises \<open>TypeError\<close>.
\<close>

theorem BOM_hash_raises:
  "BOM_hash (H\<lparr>hash_object_map := \<lambda>m. Inr 0\<rparr>) minimal_bom =
     Inl (TypeError ''unhashable type: set'')"
  by (simp add: BOM_hash_def hash_set_def minimal_bom_def)

section \<open>Planning a region\<close>

text \<open>Rounding up does not go down, so the cursor never moves back.\<close>

lemma round_up_ge: "0 < a \<Longrightarrow> x \<le> round_up a x"
proof -
  assume a: "0 < a"
  have "(x + a - 1) div a * a = (x + a - 1) - (x + a - 1) mod a"
    by (simp add: minus_mod_eq_div_mult [symmetric])
  moreover have "(x + a - 1) mod a \<le> a - 1"
    using a pos_mod_bound [of a "x + a - 1"] by simp
  ultimately show ?thesis by (simp add: round_up_def)
qed

lemma place_segments_extent:
  "0 < a \<Longrightarrow> place_segments r a cur segs = Inr (placed, c) \<Longrightarrow>
     cur + sum_list (map seg_size segs) \<le> c \<and> (segs \<noteq> [] \<longrightarrow> c \<le> region_end r)"
proof (induction segs arbitrary: cur placed c)
  case Nil
  then show ?case by simp
next
  case (Cons s ss)
  let ?stop = "round_up a cur + seg_size s"
  from Cons.prems(2) have fits: "\<not> region_end r < ?stop"
    by (auto simp add: Let_def split: if_splits)
  with Cons.prems(2) obtain placed' where
    rest: "place_segments r a ?stop ss = Inr (placed', c)"
    by (auto simp add: Let_def split: sum.splits)
  from Cons.IH [OF Cons.prems(1) rest]
  have ih: "?stop + sum_list (map seg_size ss) \<le> c" and ih2: "ss \<noteq> [] \<longrightarrow> c \<le> region_end r"
    by simp_all
  have "c \<le> region_end r"
  proof (cases ss)
    case Nil
    with rest fits show ?thesis by simp
  next
    case (Cons x xs)
    with ih2 show ?thesis by simp
  qed
  moreover from ih round_up_ge [OF Cons.prems(1), of cur]
  have "cur + sum_list (map seg_size (s # ss)) \<le> c" by simp
  ultimately show ?case by simp
qed

lemma place_segments_first_misfit:
  "place_segments r a cur segs = Inl e \<Longrightarrow>
     \<exists>pre s post placed c.
        segs = pre @ s # post
        \<and> place_segments r a cur pre = Inr (placed, c)
        \<and> region_end r < round_up a c + seg_size s
        \<and> e = PatchMakerException (RegionOverflowError (region_name r) (seg_name s))"
proof (induction segs arbitrary: cur)
  case Nil
  then show ?case by simp
next
  case (Cons s ss)
  let ?start = "round_up a cur"
  let ?stop = "?start + seg_size s"
  show ?case
  proof (cases "region_end r < ?stop")
    case True
    with Cons.prems
    have "e = PatchMakerException (RegionOverflowError (region_name r) (seg_name s))"
      by (simp add: Let_def)
    with True have
      "s # ss = [] @ s # ss \<and> place_segments r a cur [] = Inr ([], cur)
       \<and> region_end r < round_up a cur + seg_size s
       \<and> e = PatchMakerException (RegionOverflowError (region_name r) (seg_name s))"
      by simp
    then show ?thesis by blast
  next
    case False
    with Cons.prems have rest: "place_segments r a ?stop ss = Inl e"
      by (auto simp add: Let_def split: sum.splits)
    from Cons.IH [OF rest] obtain pre t post placed c where
      split: "ss = pre @ t # post" and
      pre: "place_segments r a ?stop pre = Inr (placed, c)" and
      misfit: "region_end r < round_up a c + seg_size t" and
      e: "e = PatchMakerException (RegionOverflowError (region_name r) (seg_name t))"
      by blast
    from False pre
    have "place_segments r a cur (s # pre) = Inr (s\<lparr>seg_address := ?start\<rparr> # placed, c)"
      by (simp add: Let_def)
    with split misfit e have
      "s # ss = (s # pre) @ t # post
       \<and> place_segments r a cur (s # pre) = Inr (s\<lparr>seg_address := ?start\<rparr> # placed, c)
       \<and> region_end r < round_up a c + seg_size t
       \<and> e = PatchMakerException (RegionOverflowError (region_name r) (seg_name t))"
      by simp
    then show ?thesis by blast
  qed
qed

lemma place_segments_append:
  "place_segments r a cur (xs @ ys) =
     (case place_segments r a cur xs of
        Inl e \<Rightarrow> Inl e
      | Inr (px, c) \<Rightarrow>
          (case place_segments r a c ys of
             Inl e \<Rightarrow> Inl e
           | Inr (py, c') \<Rightarrow> Inr (px @ py, c')))"
  by (induction xs arbitrary: cur) (auto simp add: Let_def split: sum.splits)

lemma place_objects_flat:
  "(case place_objects r a cur objs of
      Inl e \<Rightarrow> place_segments r a cur (concat (map snd objs)) = Inl e
    | Inr (layout, c) \<Rightarrow>
        place_segments r a cur (concat (map snd objs)) = Inr (concat (map snd layout), c))"
proof (induction objs arbitrary: cur)
  case Nil
  then show ?case by simp
next
  case (Cons o1 rest)
  obtain p segs where o1: "o1 = (p, segs)" by (cases o1)
  show ?case
  proof (cases "place_segments r a cur segs")
    case (Inl e)
    with o1 show ?thesis by (simp add: place_segments_append)
  next
    case (Inr res)
    obtain placed c where res: "res = (placed, c)" by (cases res)
    from Cons.IH [of c] Inr res o1 show ?thesis
      by (auto simp add: place_segments_append split: sum.splits)
  qed
qed

text \<open>
  C2. When the sizes of the segments requested in a region add up to more than the size
  of the region, planning fails with the region overflow that names the region and the
  first segment that does not fit: the segments before it are placed, and its own end,
  from the aligned cursor, passes the end of the region. The alignment is positive, as
  the spec requires of a \<open>BOM\<close>.
\<close>

theorem plan_region_overflow:
  assumes align: "0 < segment_alignment bom"
    and total: "int (region_size r) < sum_list (map seg_size (requested cfg))"
  shows "\<exists>pre s post placed c.
           requested cfg = pre @ s # post
           \<and> place_segments r (segment_alignment bom) (base_address r) pre = Inr (placed, c)
           \<and> region_end r < round_up (segment_alignment bom) c + seg_size s
           \<and> plan bom r cfg =
               Inl (PatchMakerException (RegionOverflowError (region_name r) (seg_name s)))"
proof -
  let ?a = "segment_alignment bom"
  have nonempty: "requested cfg \<noteq> []"
    using total by auto
  have "\<exists>e. place_segments r ?a (base_address r) (requested cfg) = Inl e"
  proof (cases "place_segments r ?a (base_address r) (requested cfg)")
    case (Inl e)
    then show ?thesis by simp
  next
    case (Inr res)
    obtain placed c where "res = (placed, c)" by (cases res)
    with Inr place_segments_extent [OF align, of r "base_address r" "requested cfg" placed c]
      nonempty
    have "base_address r + sum_list (map seg_size (requested cfg)) \<le> region_end r"
      by simp
    with total show ?thesis by (simp add: region_end_def)
  qed
  then obtain e where flat: "place_segments r ?a (base_address r) (requested cfg) = Inl e"
    by blast
  from place_objects_flat [of r ?a "base_address r" "segments cfg"] flat
  have objs: "place_objects r ?a (base_address r) (segments cfg) = Inl e"
    by (auto simp add: requested_def split: sum.splits)
  from place_segments_first_misfit [OF flat] obtain pre s post placed c where
    "requested cfg = pre @ s # post"
    "place_segments r ?a (base_address r) pre = Inr (placed, c)"
    "region_end r < round_up ?a c + seg_size s"
    "e = PatchMakerException (RegionOverflowError (region_name r) (seg_name s))"
    by blast
  moreover from objs align have "plan bom r cfg = Inl e"
    by (simp add: plan_def)
  ultimately show ?thesis by blast
qed

theorem plan_region_overflow_witness:
  "0 < segment_alignment minimal_bom
   \<and> int (region_size PATCH_A) < sum_list (map seg_size (requested (request 0x90 0x90)))
   \<and> plan minimal_bom PATCH_A (request 0x90 0x90) =
       Inl (PatchMakerException (RegionOverflowError ''PATCH_A'' ''.data''))"
  using plan_region_overflow [of minimal_bom PATCH_A "request 0x90 0x90"]
  by (simp add: plan_def PATCH_A_def request_def requested_def minimal_bom_def round_up_def
      region_end_def Let_def)

text \<open>
  C3. In the region at \<open>0x1000\<close> of length \<open>0x100\<close>, with alignment 4, segments of
  sizes 10 and 6 are placed at \<open>0x1000\<close> and \<open>0x100C\<close>, the second being \<open>0x100A\<close>
  rounded up to a multiple of 4, and both lie within the region.
\<close>

theorem plan_scenario_10_6:
  "plan (bom\<lparr>segment_alignment := 4\<rparr>) PATCH_A (request 10 6) =
     Inr [(''patch.o'', [text_placed, data_placed])]
   \<and> seg_address text_placed = 0x1000 \<and> seg_address data_placed = 0x100C
   \<and> seg_address data_placed = round_up 4 (seg_address text_placed + seg_size text_placed)
   \<and> within_region PATCH_A text_placed \<and> within_region PATCH_A data_placed"
  by (simp add: plan_def PATCH_A_def request_def round_up_def region_end_def Let_def
      text_placed_def data_placed_def within_region_def)

end
